theory Spec2Isabelle
  imports Complex_Main "HOL-Library.Word" "HOL-Library.Monad_Syntax"
begin

section \<open>Numeric model\<close>

text \<open>
  The C++ sources compute with \<open>double\<close> and \<open>uint64_t\<close>. The counters are
  64-bit words, so that \<open>++\<close> and \<open>- 1\<close> wrap as the machine does. The doubles
  are read in exact arithmetic, as reals. The one operation of the sources that leaves the
  finite numbers in exact arithmetic is a division by zero (IEEE 754 gives an infinity or
  a NaN, no trap): \<open>ddiv\<close> makes it visible by returning \<open>None\<close>. A value that is
  assigned from a quotient therefore has type \<open>real option\<close>, where \<open>None\<close> stands
  for "not a finite number"; further additions, multiplications and divisions with
  finite operands keep it so, which is what binding in the option monad does.
\<close>

type_synonym uint64_t = "64 word"

definition ddiv :: "real \<Rightarrow> real \<Rightarrow> real option" where
  "ddiv a b = (if b = 0 then None else Some (a / b))"

definition to_double :: "uint64_t \<Rightarrow> real" where
  "to_double n = real (unat n)"

section \<open>Liquidity pool: \<open>TokenPair\<close>\<close>

datatype DexType = UNISWAP_V2 | UNISWAP_V3 | SUSHISWAP | BALANCER | CURVE | BANCOR

record TokenPair =
  token0 :: string
  token1 :: string
  pair_address :: string
  dex_type :: DexType
  reserve0 :: real
  reserve1 :: real
  fee_percent :: real
  price :: real

definition calculate_price :: "TokenPair \<Rightarrow> real option" where
  "calculate_price tp =
     (if reserve1 tp = 0 then Some 0
      else ddiv (reserve0 tp) (reserve1 tp))"

definition calculate_output_amount :: "TokenPair \<Rightarrow> real \<Rightarrow> bool \<Rightarrow> real option" where
  "calculate_output_amount tp input_amount is_token0_to_token1 =
     (if is_token0_to_token1 then
        (if reserve0 tp = 0 \<or> reserve1 tp = 0 then Some 0
         else do {
           fee_fraction \<leftarrow> ddiv (fee_percent tp) 100;
           let fee_multiplier = 1 - fee_fraction;
           let input_with_fee = input_amount * fee_multiplier;
           ddiv (input_with_fee * reserve1 tp) (reserve0 tp + input_with_fee)
         })
      else
        (if reserve1 tp = 0 \<or> reserve0 tp = 0 then Some 0
         else do {
           fee_fraction \<leftarrow> ddiv (fee_percent tp) 100;
           let fee_multiplier = 1 - fee_fraction;
           let input_with_fee = input_amount * fee_multiplier;
           ddiv (input_with_fee * reserve0 tp) (reserve1 tp + input_with_fee)
         }))"

text \<open>The reserve of the token that a swap in the given direction pays out.\<close>

definition output_reserve :: "TokenPair \<Rightarrow> bool \<Rightarrow> real" where
  "output_reserve tp is_token0_to_token1 =
     (if is_token0_to_token1 then reserve1 tp else reserve0 tp)"

definition example_pool :: TokenPair where
  "example_pool = \<lparr> token0 = ''A'', token1 = ''B'', pair_address = ''0xAB'',
     dex_type = UNISWAP_V2, reserve0 = 1000, reserve1 = 2000, fee_percent = 3 / 10,
     price = 0 \<rparr>"

definition drained_pool :: TokenPair where
  "drained_pool = \<lparr> token0 = ''A'', token1 = ''B'', pair_address = ''0xAB'',
     dex_type = SUSHISWAP, reserve0 = 1000, reserve1 = 0, fee_percent = 3 / 10,
     price = 0 \<rparr>"

section \<open>Arbitrage path\<close>

record ArbitragePath =
  tokens :: "string list"
  pairs :: "TokenPair list"
  expected_profit_eth :: real
  required_input_eth :: real
  gas_estimate :: real

definition is_valid :: "ArbitragePath \<Rightarrow> bool" where
  "is_valid p \<longleftrightarrow>
     3 \<le> length (tokens p) \<and> 2 \<le> length (pairs p) \<and> 0 < expected_profit_eth p"

text \<open>
  What the data model calls a closed cycle: the token sequence is not empty and its first
  token is its last.
\<close>

definition cycle_closes :: "ArbitragePath \<Rightarrow> bool" where
  "cycle_closes p \<longleftrightarrow> tokens p \<noteq> [] \<and> hd (tokens p) = last (tokens p)"

definition open_path :: ArbitragePath where
  "open_path = \<lparr> tokens = [''A'', ''B'', ''C''],
     pairs = [example_pool, drained_pool],
     expected_profit_eth = 1, required_input_eth = 10, gas_estimate = 0 \<rparr>"

section \<open>Strategy configuration\<close>

text \<open>
  \<open>StrategyConfig\<close> of \<open>config.hpp\<close>. It is declared before the statistics, as
  the header is included first; the field name \<open>min_profit_eth\<close> occurs in both
  structs and, unqualified, means the field of \<open>StrategyStats\<close> from there on.
\<close>

record StrategyConfig =
  enabled :: bool
  min_profit_eth :: real
  max_slippage_percent :: real
  target_dexes :: "string list"
  gas_limit :: uint64_t
  max_gas_price_gwei :: uint64_t
  bundle_timeout_ms :: uint64_t
  frontrun_gas_multiplier :: real
  backrun_gas_multiplier :: real
  priority_fee_gwei :: real
  min_transaction_value_eth :: real
  target_protocols :: "string list"

section \<open>Per-strategy statistics: \<open>StrategyStats\<close>\<close>

text \<open>
  \<open>std::numeric_limits<double>::max()\<close>, the largest finite double:
  \<open>(2 - 2\<^sup>-\<^sup>5\<^sup>2) * 2\<^sup>1\<^sup>0\<^sup>2\<^sup>3\<close>.
\<close>

definition DBL_MAX :: real where
  "DBL_MAX = 2 ^ 1024 - 2 ^ 971"

text \<open>\<open>std::min(a, b)\<close> is \<open>(b < a) ? b : a\<close> and \<open>std::max(a, b)\<close> is \<open>(a < b) ? b : a\<close>.\<close>

definition std_min :: "real \<Rightarrow> real \<Rightarrow> real" where
  "std_min a b = (if b < a then b else a)"

definition std_max :: "real \<Rightarrow> real \<Rightarrow> real" where
  "std_max a b = (if a < b then b else a)"

text \<open>
  The three fields that the update functions assign from a quotient are
  \<open>real option\<close>; the others only ever hold sums, minima and maxima of finite
  arguments.
\<close>

record StrategyStats =
  opportunities_detected :: uint64_t
  opportunities_executed :: uint64_t
  successful_executions :: uint64_t
  failed_executions :: uint64_t
  total_profit_eth :: real
  total_gas_used_eth :: real
  avg_execution_time_us :: "real option"
  success_rate :: "real option"
  avg_detection_latency_us :: real
  avg_execution_latency_us :: real
  min_execution_latency_us :: real
  max_execution_latency_us :: real
  min_profit_eth :: real
  max_profit_eth :: real
  avg_profit_eth :: "real option"

text \<open>A default-constructed \<open>StrategyStats\<close>: the default member initialisers.\<close>

definition default_stats :: StrategyStats where
  "default_stats = \<lparr>
     opportunities_detected = 0,
     opportunities_executed = 0,
     successful_executions = 0,
     failed_executions = 0,
     total_profit_eth = 0,
     total_gas_used_eth = 0,
     avg_execution_time_us = Some 0,
     success_rate = Some 0,
     avg_detection_latency_us = 0,
     avg_execution_latency_us = 0,
     min_execution_latency_us = DBL_MAX,
     max_execution_latency_us = 0,
     min_profit_eth = DBL_MAX,
     max_profit_eth = 0,
     avg_profit_eth = Some 0 \<rparr>"

definition update_success :: "StrategyStats \<Rightarrow> real \<Rightarrow> real \<Rightarrow> real \<Rightarrow> StrategyStats" where
  "update_success s profit_eth gas_used_eth execution_time_us =
     (let s = s\<lparr>successful_executions := successful_executions s + 1\<rparr>;
          s = s\<lparr>total_profit_eth := total_profit_eth s + profit_eth\<rparr>;
          s = s\<lparr>total_gas_used_eth := total_gas_used_eth s + gas_used_eth\<rparr>;
          s = s\<lparr>avg_execution_time_us := do {
                  avg \<leftarrow> avg_execution_time_us s;
                  ddiv (avg * to_double (successful_executions s - 1) + execution_time_us)
                       (to_double (successful_executions s))
                }\<rparr>;
          s = s\<lparr>avg_profit_eth :=
                  ddiv (total_profit_eth s) (to_double (successful_executions s))\<rparr>;
          s = s\<lparr>min_profit_eth := std_min (min_profit_eth s) profit_eth\<rparr>;
          s = s\<lparr>max_profit_eth := std_max (max_profit_eth s) profit_eth\<rparr>;
          s = s\<lparr>min_execution_latency_us :=
                  std_min (min_execution_latency_us s) execution_time_us\<rparr>;
          s = s\<lparr>max_execution_latency_us :=
                  std_max (max_execution_latency_us s) execution_time_us\<rparr>;
          s = s\<lparr>success_rate :=
                  ddiv (to_double (successful_executions s))
                       (to_double (opportunities_executed s))\<rparr>
      in s)"

definition update_failure :: "StrategyStats \<Rightarrow> real \<Rightarrow> StrategyStats" where
  "update_failure s execution_time_us =
     (let s = s\<lparr>failed_executions := failed_executions s + 1\<rparr>;
          s = s\<lparr>avg_execution_time_us := do {
                  avg \<leftarrow> avg_execution_time_us s;
                  ddiv (avg * to_double (opportunities_executed s - 1) + execution_time_us)
                       (to_double (opportunities_executed s))
                }\<rparr>;
          s = s\<lparr>success_rate :=
                  ddiv (to_double (successful_executions s))
                       (to_double (opportunities_executed s))\<rparr>;
          s = s\<lparr>min_execution_latency_us :=
                  std_min (min_execution_latency_us s) execution_time_us\<rparr>;
          s = s\<lparr>max_execution_latency_us :=
                  std_max (max_execution_latency_us s) execution_time_us\<rparr>
      in s)"

definition reset :: "StrategyStats \<Rightarrow> StrategyStats" where
  "reset s = s\<lparr>
     opportunities_detected := 0,
     opportunities_executed := 0,
     successful_executions := 0,
     failed_executions := 0,
     total_profit_eth := 0,
     total_gas_used_eth := 0,
     avg_execution_time_us := Some 0,
     success_rate := Some 0,
     avg_detection_latency_us := 0,
     avg_execution_latency_us := 0,
     min_execution_latency_us := DBL_MAX,
     max_execution_latency_us := 0,
     min_profit_eth := DBL_MAX,
     max_profit_eth := 0,
     avg_profit_eth := Some 0\<rparr>"

section \<open>The strategy object that owns the statistics\<close>

text \<open>
  The data members of \<open>BaseStrategy\<close>: name, configuration, enabled flag and the
  statistics (the mutex and the metric handles carry no value of their own).
  \<open>StrategyStats::reset\<close> runs on the member \<open>stats_\<close>; the object after the
  call is the object with that member replaced. The members \<open>name_\<close>,
  \<open>config_\<close>, \<open>enabled_\<close> and \<open>stats_\<close> are written \<open>m_name\<close>,
  \<open>m_config\<close>, \<open>m_enabled\<close> and \<open>m_stats\<close>, since an identifier cannot
  end in an underscore here.
\<close>

record BaseStrategy =
  m_name :: string
  m_config :: StrategyConfig
  m_enabled :: bool
  m_stats :: StrategyStats

section \<open>Sequences of execution attempts\<close>

text \<open>
  An execution attempt ends in exactly one of \<open>update_success(profit, gas, latency)\<close>
  and \<open>update_failure(latency)\<close>.
\<close>

datatype attempt = Succeeded real real real | Failed real

fun latency :: "attempt \<Rightarrow> real" where
  "latency (Succeeded profit_eth gas_used_eth execution_time_us) = execution_time_us"
| "latency (Failed execution_time_us) = execution_time_us"

text \<open>
  Modelled from the spec: the caller of the two update functions (the body of
  \<open>BaseStrategy::update_metrics\<close> is not among the sources). Neither update function
  writes \<open>opportunities_executed\<close>; the caller counts the attempt first, so that at
  each call the counter is the number of attempts recorded, this one included.
\<close>

fun record_attempt :: "StrategyStats \<Rightarrow> attempt \<Rightarrow> StrategyStats" where
  "record_attempt s (Succeeded profit_eth gas_used_eth execution_time_us) =
     update_success (s\<lparr>opportunities_executed := opportunities_executed s + 1\<rparr>)
       profit_eth gas_used_eth execution_time_us"
| "record_attempt s (Failed execution_time_us) =
     update_failure (s\<lparr>opportunities_executed := opportunities_executed s + 1\<rparr>)
       execution_time_us"

definition record_attempts :: "StrategyStats \<Rightarrow> attempt list \<Rightarrow> StrategyStats" where
  "record_attempts s as = foldl record_attempt s as"

text \<open>The arithmetic mean of the latencies of a non-empty sequence of attempts.\<close>

definition mean_latency :: "attempt list \<Rightarrow> real" where
  "mean_latency as = sum_list (map latency as) / real (length as)"

section \<open>Constant-product arithmetic\<close>

text \<open>
  With positive reserves, a fee below 100 percent and a positive input, every divisor of
  \<open>calculate_output_amount\<close> is positive, and the result is the constant-product
  quotient \<open>u * s / (r + u)\<close> of the input after the fee \<open>u\<close>, the reserve
  paid out \<open>s\<close> and the reserve paid in \<open>r\<close>.
\<close>

lemma fee_multiplier_pos:
  assumes "0 \<le> fee_percent tp" "fee_percent tp < 100"
  shows "0 < 1 - fee_percent tp / 100" "1 - fee_percent tp / 100 \<le> 1"
  using assms by simp_all

lemma swap_value:
  assumes "r \<noteq> 0" "s \<noteq> 0" "r + x * (1 - fee / 100) \<noteq> 0"
  shows "(do { fee_fraction \<leftarrow> ddiv fee 100;
           let fee_multiplier = 1 - fee_fraction;
           let input_with_fee = x * fee_multiplier;
           ddiv (input_with_fee * s) (r + input_with_fee) })
         = Some (x * (1 - fee / 100) * s / (r + x * (1 - fee / 100)))"
  using assms(3) by (simp add: ddiv_def Let_def)

lemma cp_closed_form:
  assumes "0 < reserve0 tp" "0 < reserve1 tp" "0 \<le> fee_percent tp" "fee_percent tp < 100" "0 < x"
  shows "calculate_output_amount tp x True =
           Some (x * (1 - fee_percent tp / 100) * reserve1 tp / (reserve0 tp + x * (1 - fee_percent tp / 100)))"
    and "calculate_output_amount tp x False =
           Some (x * (1 - fee_percent tp / 100) * reserve0 tp / (reserve1 tp + x * (1 - fee_percent tp / 100)))"
proof -
  have m: "0 < x * (1 - fee_percent tp / 100)"
    using assms(5) fee_multiplier_pos(1) [OF assms(3,4)] by (rule mult_pos_pos)
  have n0: "reserve0 tp + x * (1 - fee_percent tp / 100) \<noteq> 0"
    using add_pos_pos [OF assms(1) m] by simp
  have n1: "reserve1 tp + x * (1 - fee_percent tp / 100) \<noteq> 0"
    using add_pos_pos [OF assms(2) m] by simp
  have r: "reserve0 tp \<noteq> 0" "reserve1 tp \<noteq> 0" using assms by simp_all
  show "calculate_output_amount tp x True =
           Some (x * (1 - fee_percent tp / 100) * reserve1 tp / (reserve0 tp + x * (1 - fee_percent tp / 100)))"
    unfolding calculate_output_amount_def using r swap_value [OF r(1) r(2) n0] by simp
  show "calculate_output_amount tp x False =
           Some (x * (1 - fee_percent tp / 100) * reserve0 tp / (reserve1 tp + x * (1 - fee_percent tp / 100)))"
    unfolding calculate_output_amount_def using r swap_value [OF r(2) r(1) n1] by simp
qed

lemma cp_mono:
  fixes r s u v :: real
  assumes "0 < r" "0 < s" "0 < u" "u < v"
  shows "u * s / (r + u) < v * s / (r + v)"
proof -
  have "u * s * (r + v) < v * s * (r + u)"
  proof -
    have "u * s * (r + v) = u * s * r + u * v * s" by (simp add: algebra_simps)
    moreover have "v * s * (r + u) = v * s * r + u * v * s" by (simp add: algebra_simps)
    moreover have "u * s * r < v * s * r" using assms by simp
    ultimately show ?thesis by simp
  qed
  moreover have "0 < r + u" "0 < r + v" using assms by simp_all
  ultimately show ?thesis by (simp add: divide_less_eq less_divide_eq ac_simps)
qed

lemma cp_below:
  fixes r s u :: real
  assumes "0 < r" "0 < s" "0 < u"
  shows "u * s / (r + u) < s"
proof -
  have "0 < r + u" using assms by simp
  moreover have "u * s < s * (r + u)" using assms by (simp add: algebra_simps)
  ultimately show ?thesis by (simp add: divide_less_eq)
qed


lemma cp_mono_le:
  fixes r s u v :: real
  assumes "0 < r" "0 < s" "0 < u" "u \<le> v"
  shows "u * s / (r + u) \<le> v * s / (r + v)"
proof (cases "u = v")
  case True
  then show ?thesis by simp
next
  case False
  with assms(4) have "u < v" by simp
  from cp_mono [OF assms(1-3) this] show ?thesis by simp
qed

lemma cp_back_below:
  fixes r s u :: real
  assumes "0 < r" "0 < s" "0 < u"
  shows "(u * s / (r + u)) * r / (s + u * s / (r + u)) < u"
proof -
  define y where "y = u * s / (r + u)"
  have ru: "0 < r + u" using assms by simp
  have yeq: "y * (r + u) = u * s" using ru by (simp add: y_def)
  have ypos: "0 < y" using assms ru by (simp add: y_def)
  have sy: "0 < s + y" using assms ypos by simp
  have "u * (s + y) = y * (r + u) + u * y" using yeq by (simp add: algebra_simps)
  also have "\<dots> = y * r + 2 * (u * y)" by (simp add: algebra_simps)
  finally have "y * r < u * (s + y)" using assms(3) ypos by simp
  then have "y * r / (s + y) < u" using sy by (simp add: divide_less_eq)
  then show ?thesis by (simp add: y_def)
qed

lemma round_trip_strict:
  fixes r s x f :: real
  assumes "0 < r" "0 < s" "0 < x" "0 < f" "f \<le> 1"
  shows "0 < x * f * s / (r + x * f)"
    and "(x * f * s / (r + x * f)) * f * r / (s + (x * f * s / (r + x * f)) * f) < x"
proof -
  define u where "u = x * f"
  define y where "y = u * s / (r + u)"
  have upos: "0 < u" using assms by (simp add: u_def)
  have ux: "u \<le> x" using assms by (simp add: u_def mult_left_le)
  have ypos: "0 < y" using assms upos by (simp add: y_def)
  have yfpos: "0 < y * f" using ypos assms by simp
  have yf: "y * f \<le> y" using ypos assms by (simp add: mult_left_le)
  have "y * f * r / (s + y * f) \<le> y * r / (s + y)"
    by (rule cp_mono_le [OF assms(2) assms(1) yfpos yf])
  also have "\<dots> < u" unfolding y_def by (rule cp_back_below [OF assms(1,2) upos])
  also note ux
  finally have "y * f * r / (s + y * f) < x" .
  then show "(x * f * s / (r + x * f)) * f * r / (s + (x * f * s / (r + x * f)) * f) < x"
    by (simp add: y_def u_def)
  show "0 < x * f * s / (r + x * f)" using ypos by (simp add: y_def u_def)
qed

section \<open>Properties of the liquidity pool\<close>

text \<open>
  C1. For a pool with positive reserves and a fee in \<open>[0, 100)\<close>, in either
  direction: the swap output is a finite number for every positive input, it is strictly
  increasing in the input over positive inputs, and it is strictly below the reserve of
  the token paid out.
\<close>

theorem calculate_output_amount_increasing_bounded:
  assumes "0 < reserve0 tp" and "0 < reserve1 tp"
    and "0 \<le> fee_percent tp" and "fee_percent tp < 100"
    and "0 < x" and "x < y"
  shows "\<exists>a b. calculate_output_amount tp x d = Some a
             \<and> calculate_output_amount tp y d = Some b
             \<and> a < b \<and> a < output_reserve tp d \<and> b < output_reserve tp d"
proof -
  define f where "f = 1 - fee_percent tp / 100"
  have f: "0 < f" using assms(3,4) by (simp add: f_def)
  have ypos: "0 < y" using assms(5,6) by simp
  have u: "0 < x * f" "0 < y * f" "x * f < y * f" using f assms(5,6) ypos by simp_all
  show ?thesis
  proof (cases d)
    case True
    then have dir: "d = True" by simp
    have "calculate_output_amount tp x d = Some (x * f * reserve1 tp / (reserve0 tp + x * f))"
      unfolding dir f_def by (rule cp_closed_form(1) [OF assms(1-5)])
    moreover have "calculate_output_amount tp y d = Some (y * f * reserve1 tp / (reserve0 tp + y * f))"
      unfolding dir f_def by (rule cp_closed_form(1) [OF assms(1-4) ypos])
    moreover have "x * f * reserve1 tp / (reserve0 tp + x * f) < y * f * reserve1 tp / (reserve0 tp + y * f)"
      by (rule cp_mono [OF assms(1,2) u(1,3)])
    moreover have "x * f * reserve1 tp / (reserve0 tp + x * f) < output_reserve tp d"
      unfolding output_reserve_def dir using cp_below [OF assms(1,2) u(1)] by simp
    moreover have "y * f * reserve1 tp / (reserve0 tp + y * f) < output_reserve tp d"
      unfolding output_reserve_def dir using cp_below [OF assms(1,2) u(2)] by simp
    ultimately show ?thesis by blast
  next
    case False
    then have dir: "d = False" by simp
    have "calculate_output_amount tp x d = Some (x * f * reserve0 tp / (reserve1 tp + x * f))"
      unfolding dir f_def by (rule cp_closed_form(2) [OF assms(1-5)])
    moreover have "calculate_output_amount tp y d = Some (y * f * reserve0 tp / (reserve1 tp + y * f))"
      unfolding dir f_def by (rule cp_closed_form(2) [OF assms(1-4) ypos])
    moreover have "x * f * reserve0 tp / (reserve1 tp + x * f) < y * f * reserve0 tp / (reserve1 tp + y * f)"
      by (rule cp_mono [OF assms(2,1) u(1,3)])
    moreover have "x * f * reserve0 tp / (reserve1 tp + x * f) < output_reserve tp d"
      unfolding output_reserve_def dir using cp_below [OF assms(2,1) u(1)] by simp
    moreover have "y * f * reserve0 tp / (reserve1 tp + y * f) < output_reserve tp d"
      unfolding output_reserve_def dir using cp_below [OF assms(2,1) u(2)] by simp
    ultimately show ?thesis by blast
  qed
qed

theorem calculate_output_amount_increasing_bounded_witness:
  "0 < reserve0 example_pool \<and> 0 < reserve1 example_pool
   \<and> 0 \<le> fee_percent example_pool \<and> fee_percent example_pool < 100
   \<and> (0::real) < 10 \<and> (10::real) < 20
   \<and> (\<exists>a b. calculate_output_amount example_pool 10 True = Some a
             \<and> calculate_output_amount example_pool 20 True = Some b
             \<and> a < b \<and> a < output_reserve example_pool True
             \<and> b < output_reserve example_pool True)"
  using calculate_output_amount_increasing_bounded [of example_pool 10 20 True]
  by (simp add: example_pool_def)

text \<open>
  C4. Round trip on an unchanged pool with positive reserves and a fee in
  \<open>[0, 100)\<close>: swapping a positive \<open>x\<close> of token0 into token1 and the whole
  output back into token0 returns at most \<open>x\<close>, and strictly less than \<open>x\<close> when
  the fee is positive.
\<close>

theorem round_trip_not_above_input:
  assumes "0 < reserve0 tp" and "0 < reserve1 tp"
    and "0 \<le> fee_percent tp" and "fee_percent tp < 100"
    and "0 < x"
  shows "\<exists>y z. calculate_output_amount tp x True = Some y
             \<and> calculate_output_amount tp y False = Some z
             \<and> z \<le> x \<and> (0 < fee_percent tp \<longrightarrow> z < x)"
proof -
  define f where "f = 1 - fee_percent tp / 100"
  define y where "y = x * f * reserve1 tp / (reserve0 tp + x * f)"
  define z where "z = y * f * reserve0 tp / (reserve1 tp + y * f)"
  have f: "0 < f" "f \<le> 1" using assms(3,4) by (simp_all add: f_def)
  have ypos: "0 < y" unfolding y_def by (rule round_trip_strict(1) [OF assms(1,2,5) f])
  have zx: "z < x" unfolding z_def y_def by (rule round_trip_strict(2) [OF assms(1,2,5) f])
  have "calculate_output_amount tp x True = Some y"
    unfolding y_def f_def by (rule cp_closed_form(1) [OF assms(1-5)])
  moreover have "calculate_output_amount tp y False = Some z"
    unfolding z_def f_def by (rule cp_closed_form(2) [OF assms(1-4) ypos])
  ultimately show ?thesis using zx by auto
qed

theorem round_trip_not_above_input_witness:
  "0 < reserve0 example_pool \<and> 0 < reserve1 example_pool
   \<and> 0 \<le> fee_percent example_pool \<and> fee_percent example_pool < 100 \<and> (0::real) < 10
   \<and> 0 < fee_percent example_pool
   \<and> (\<exists>y z. calculate_output_amount example_pool 10 True = Some y
             \<and> calculate_output_amount example_pool y False = Some z
             \<and> z \<le> 10 \<and> z < 10)"
  using round_trip_not_above_input [of example_pool 10]
  by (simp add: example_pool_def)

text \<open>
  C6. \<open>calculate_price\<close> returns \<open>reserve0 / reserve1\<close> when \<open>reserve1\<close> is
  positive, and \<open>0\<close> when \<open>reserve1\<close> is \<open>0\<close>.
\<close>

theorem calculate_price_value:
  "(0 < reserve1 tp \<longrightarrow> calculate_price tp = Some (reserve0 tp / reserve1 tp))
   \<and> (reserve1 tp = 0 \<longrightarrow> calculate_price tp = Some 0)"
  by (simp add: calculate_price_def ddiv_def)

theorem calculate_price_value_witness:
  "0 < reserve1 example_pool \<and> calculate_price example_pool = Some (1 / 2)
   \<and> reserve1 drained_pool = 0 \<and> calculate_price drained_pool = Some 0"
  using calculate_price_value [of example_pool] calculate_price_value [of drained_pool]
  by (simp add: example_pool_def drained_pool_def)

text \<open>
  C7. On a pool with a zero reserve on either side, \<open>calculate_price\<close> returns
  \<open>0\<close> and \<open>calculate_output_amount\<close> returns \<open>0\<close> for every input and either
  direction. Every division of the two functions goes through \<open>ddiv\<close>, whose result
  on a zero divisor is \<open>None\<close> and stays \<open>None\<close> in what follows; the value
  \<open>Some 0\<close> thus says that both functions return and that no divisor was zero.
\<close>

theorem zero_reserve_no_division_fault:
  assumes "reserve0 tp = 0 \<or> reserve1 tp = 0"
  shows "calculate_price tp = Some 0 \<and> calculate_output_amount tp x d = Some 0"
proof
  show "calculate_price tp = Some 0"
    using assms by (auto simp: calculate_price_def ddiv_def)
  show "calculate_output_amount tp x d = Some 0"
    using assms by (auto simp: calculate_output_amount_def)
qed

theorem zero_reserve_no_division_fault_witness:
  "(reserve0 drained_pool = 0 \<or> reserve1 drained_pool = 0)
   \<and> calculate_price drained_pool = Some 0
   \<and> calculate_output_amount drained_pool 10 False = Some 0"
  using zero_reserve_no_division_fault [of drained_pool 10 False]
  by (simp add: drained_pool_def)

section \<open>Properties of the arbitrage path\<close>

text \<open>
  C2, as stated, fails: \<open>is_valid\<close> accepts the path \<open>A, B, C\<close> over two pools
  with expected profit \<open>1\<close>, whose first token is not its last.
\<close>

theorem is_valid_counterexample:
  "is_valid open_path \<and> hd (tokens open_path) \<noteq> last (tokens open_path)
   \<and> \<not> cycle_closes open_path"
  by (simp add: is_valid_def cycle_closes_def open_path_def)

text \<open>
  C2, amended. \<open>is_valid\<close> returns true only if the path has at least three tokens
  and at least two pools and \<open>expected_profit_eth\<close> is positive. It counts the
  tokens; it does not compare the first with the last.
\<close>

theorem is_valid_only_if:
  assumes "is_valid p"
  shows "3 \<le> length (tokens p) \<and> 2 \<le> length (pairs p) \<and> 0 < expected_profit_eth p"
  using assms by (simp add: is_valid_def)

theorem is_valid_only_if_witness:
  "is_valid open_path \<and> 3 \<le> length (tokens open_path) \<and> 2 \<le> length (pairs open_path)
   \<and> 0 < expected_profit_eth open_path"
proof -
  have v: "is_valid open_path" by (simp add: is_valid_def open_path_def)
  from v is_valid_only_if [OF v] show ?thesis by simp
qed

section \<open>The statistics, field by field\<close>

lemma to_double_simps: "to_double 0 = 0" "to_double 1 = 1" "to_double 2 = 2" "to_double 3 = 3"
  by (simp_all add: to_double_def)

lemma to_double_of_nat:
  assumes "k < 2 ^ 64"
  shows "to_double (of_nat k) = real k"
proof -
  have "unat (of_nat k :: 64 word) = k"
    using assms by (simp add: unat_of_nat)
  then show ?thesis by (simp add: to_double_def)
qed

lemma one_less_DBL_MAX: "1 < DBL_MAX"
proof -
  have "(2::real) ^ 971 * 2 \<le> 2 ^ 971 * 2 ^ 53" by (intro mult_left_mono) simp_all
  then have "(2::real) * 2 ^ 971 \<le> 2 ^ 1024" by (simp add: power_add [symmetric])
  moreover have "(1::real) \<le> 2 ^ 971" by (rule one_le_power) simp
  ultimately show ?thesis by (simp add: DBL_MAX_def)
qed

lemma reset_fields:
  "successful_executions (reset s) = 0"
  "opportunities_executed (reset s) = 0"
  "total_profit_eth (reset s) = 0"
  "min_profit_eth (reset s) = DBL_MAX"
  "max_profit_eth (reset s) = 0"
  "avg_execution_time_us (reset s) = Some 0"
  by (simp_all add: reset_def)

lemma update_success_fields:
  "successful_executions (update_success s p g t) = successful_executions s + 1"
  "opportunities_executed (update_success s p g t) = opportunities_executed s"
  "total_profit_eth (update_success s p g t) = total_profit_eth s + p"
  "avg_profit_eth (update_success s p g t) =
     ddiv (total_profit_eth s + p) (to_double (successful_executions s + 1))"
  "min_profit_eth (update_success s p g t) = std_min (min_profit_eth s) p"
  "max_profit_eth (update_success s p g t) = std_max (max_profit_eth s) p"
  "success_rate (update_success s p g t) =
     ddiv (to_double (successful_executions s + 1)) (to_double (opportunities_executed s))"
  "avg_execution_time_us (update_success s p g t) =
     Option.bind (avg_execution_time_us s) (\<lambda>avg.
       ddiv (avg * to_double (successful_executions s + 1 - 1) + t)
            (to_double (successful_executions s + 1)))"
  by (simp_all add: update_success_def Let_def)

lemma update_failure_fields:
  "successful_executions (update_failure s t) = successful_executions s"
  "opportunities_executed (update_failure s t) = opportunities_executed s"
  "failed_executions (update_failure s t) = failed_executions s + 1"
  "success_rate (update_failure s t) =
     ddiv (to_double (successful_executions s)) (to_double (opportunities_executed s))"
  "avg_execution_time_us (update_failure s t) =
     Option.bind (avg_execution_time_us s) (\<lambda>avg.
       ddiv (avg * to_double (opportunities_executed s - 1) + t)
            (to_double (opportunities_executed s)))"
  by (simp_all add: update_failure_def Let_def)

section \<open>Properties of the statistics\<close>

text \<open>
  C5. Three calls of \<open>update_success\<close> from the reset state with profits
  \<open>1\<close>, \<open>2\<close>, \<open>3\<close>, whatever the gas and latency arguments, leave
  \<open>avg_profit_eth = 2\<close>, \<open>min_profit_eth = 1\<close>, \<open>max_profit_eth = 3\<close> and
  \<open>successful_executions = 3\<close>.
\<close>

theorem three_profits:
  "avg_profit_eth (update_success (update_success (update_success (reset s) 1 g1 t1) 2 g2 t2) 3 g3 t3) = Some 2
   \<and> min_profit_eth (update_success (update_success (update_success (reset s) 1 g1 t1) 2 g2 t2) 3 g3 t3) = 1
   \<and> max_profit_eth (update_success (update_success (update_success (reset s) 1 g1 t1) 2 g2 t2) 3 g3 t3) = 3
   \<and> successful_executions (update_success (update_success (update_success (reset s) 1 g1 t1) 2 g2 t2) 3 g3 t3) = 3"
proof (intro conjI)
  let ?s3 = "update_success (update_success (update_success (reset s) 1 g1 t1) 2 g2 t2) 3 g3 t3"
  show "avg_profit_eth ?s3 = Some 2"
    by (simp add: update_success_fields reset_fields ddiv_def to_double_simps)
  show "min_profit_eth ?s3 = 1"
    using one_less_DBL_MAX by (simp add: update_success_fields reset_fields std_min_def)
  show "max_profit_eth ?s3 = 3"
    by (simp add: update_success_fields reset_fields std_max_def)
  show "successful_executions ?s3 = 3"
    by (simp add: update_success_fields reset_fields)
qed

text \<open>
  C8. \<open>reset\<close> is idempotent: from every starting value, two calls give the same
  statistics as one, namely the zeroed statistics of a default-constructed object. Run
  on the \<open>stats_\<close> member of a strategy, it leaves the name, the configuration and
  the enabled flag of the strategy as they were.
\<close>

theorem reset_idempotent:
  "reset (reset s) = reset s \<and> reset s = default_stats
   \<and> m_name (b\<lparr>m_stats := reset (m_stats b)\<rparr>) = m_name b
   \<and> m_config (b\<lparr>m_stats := reset (m_stats b)\<rparr>) = m_config b
   \<and> m_enabled (b\<lparr>m_stats := reset (m_stats b)\<rparr>) = m_enabled b"
  by (simp add: reset_def default_stats_def)

text \<open>
  C10. Neither \<open>update_success\<close> nor \<open>update_failure\<close> changes
  \<open>opportunities_executed\<close>, and both divide by it. A call made while the counter
  is \<open>0\<close>, such as the first one after \<open>reset\<close>, reaches the division by zero:
  \<open>success_rate\<close> after either call, and \<open>avg_execution_time_us\<close> after
  \<open>update_failure\<close>, are not finite numbers.
\<close>

theorem unguarded_division:
  "opportunities_executed (update_success s p g t) = opportunities_executed s
   \<and> opportunities_executed (update_failure s t) = opportunities_executed s
   \<and> (opportunities_executed s = 0 \<longrightarrow>
         success_rate (update_success s p g t) = None
       \<and> success_rate (update_failure s t) = None
       \<and> avg_execution_time_us (update_failure s t) = None)"
  by (cases "avg_execution_time_us s")
     (simp_all add: update_success_fields update_failure_fields ddiv_def to_double_def)

theorem unguarded_division_witness:
  "opportunities_executed (reset default_stats) = 0
   \<and> success_rate (update_success (reset default_stats) 1 1 5) = None
   \<and> success_rate (update_failure (reset default_stats) 5) = None
   \<and> avg_execution_time_us (update_failure (reset default_stats) 5) = None"
  using unguarded_division [of "reset default_stats" 1 1 5]
  by (simp add: reset_fields)

section \<open>The running mean of the execution time\<close>

lemma record_failed_fields:
  "opportunities_executed (record_attempt s (Failed t)) = opportunities_executed s + 1"
  "avg_execution_time_us (record_attempt s (Failed t)) =
     Option.bind (avg_execution_time_us s) (\<lambda>avg.
       ddiv (avg * to_double (opportunities_executed s) + t)
            (to_double (opportunities_executed s + 1)))"
  by (simp_all add: update_failure_fields)

text \<open>
  The failure path alone keeps the mean over the attempts: it weighs the old mean with
  \<open>opportunities_executed - 1\<close> and divides by \<open>opportunities_executed\<close>.
\<close>

lemma failures_only_state:
  assumes "length ts < 2 ^ 64"
  shows "opportunities_executed (record_attempts (reset s) (map Failed ts)) = of_nat (length ts)
       \<and> avg_execution_time_us (record_attempts (reset s) (map Failed ts))
           = Some (if ts = [] then 0 else sum_list ts / real (length ts))"
  using assms
proof (induction ts rule: rev_induct)
  case Nil
  show ?case by (simp add: record_attempts_def reset_fields)
next
  case (snoc t ts)
  let ?s = "record_attempts (reset s) (map Failed ts)"
  have len: "length ts < 2 ^ 64" "Suc (length ts) < 2 ^ 64" using snoc.prems by simp_all
  have ih: "opportunities_executed ?s = of_nat (length ts)"
    "avg_execution_time_us ?s = Some (if ts = [] then 0 else sum_list ts / real (length ts))"
    using snoc.IH [OF len(1)] by simp_all
  have step: "record_attempts (reset s) (map Failed (ts @ [t])) = record_attempt ?s (Failed t)"
    by (simp add: record_attempts_def)
  have d1: "to_double (opportunities_executed ?s) = real (length ts)"
    unfolding ih(1) by (rule to_double_of_nat [OF len(1)])
  have "opportunities_executed ?s + 1 = of_nat (Suc (length ts))"
    unfolding ih(1) by simp
  then have d2: "to_double (opportunities_executed ?s + 1) = real (Suc (length ts))"
    by (simp only: to_double_of_nat [OF len(2)])
  have oe: "opportunities_executed (record_attempt ?s (Failed t)) = of_nat (length (ts @ [t]))"
    unfolding record_failed_fields(1) ih(1) by simp
  have avg: "avg_execution_time_us (record_attempt ?s (Failed t))
      = Some (sum_list (ts @ [t]) / real (length (ts @ [t])))"
  proof (cases "ts = []")
    case True
    then show ?thesis
      unfolding record_failed_fields(2) ih(2) d1 d2 by (simp add: ddiv_def)
  next
    case False
    then have "real (length ts) \<noteq> 0" by simp
    then have "sum_list ts / real (length ts) * real (length ts) = sum_list ts" by simp
    then show ?thesis
      unfolding record_failed_fields(2) ih(2) d1 d2 using False by (simp add: ddiv_def)
  qed
  show ?case unfolding step using oe avg by simp
qed

lemma failures_only_mean:
  assumes "ts \<noteq> []" and "length ts < 2 ^ 64"
  shows "avg_execution_time_us (record_attempts (reset s) (map Failed ts))
           = Some (mean_latency (map Failed ts))"
proof -
  have "map latency (map Failed ts) = ts" by (induction ts) simp_all
  then have "mean_latency (map Failed ts) = sum_list ts / real (length ts)"
    by (simp add: mean_latency_def)
  with failures_only_state [OF assms(2), of s] assms(1) show ?thesis by simp
qed

text \<open>
  C3. After a failed attempt with latency \<open>10\<close> and a successful one with latency
  \<open>20\<close>, each counted in \<open>opportunities_executed\<close> before its update, the mean of
  the latencies is \<open>15\<close>, and \<open>avg_execution_time_us\<close> is \<open>20\<close>:
  \<open>update_success\<close> weighs the old mean with \<open>successful_executions - 1\<close> and
  divides by \<open>successful_executions\<close>, not by the number of attempts.
\<close>

theorem mixed_attempts_average:
  "avg_execution_time_us (record_attempts (reset s) [Failed 10, Succeeded 1 1 20]) = Some 20
   \<and> mean_latency [Failed 10, Succeeded 1 1 20] = 15"
  by (simp add: record_attempts_def mean_latency_def update_success_fields update_failure_fields
        reset_fields ddiv_def to_double_simps)

end
